theory Spec2Isabelle
  imports Main
begin

section \<open>The mint statistics hook (src/components/useMintStats.tsx)\<close>

text \<open>
  The hook \<^verbatim>\<open>useMintStats\<close> keeps one piece of React state (\<^verbatim>\<open>stats\<close>), seeds it from
  \<^verbatim>\<open>localStorage\<close>, and installs an effect that runs \<^verbatim>\<open>fetchMintStats\<close> once and then every
  30 seconds. The embedding below follows the source statement by statement. What the
  source obtains from outside (the application configuration, the ENS name hashing, the
  three network services, the clock, the browser storage) is a parameter of the model.

  Conventions of the embedding:
  \<^item> JavaScript numbers that the hook handles are counts and millisecond clocks; they are
    integers here (\<open>NaN\<close> and fractions are not represented).
  \<^item> A value that the source only tests for truthiness before using it is represented so
    that the falsy cases coincide: a missing or empty \<^verbatim>\<open>listedName\<close> is \<open>''''\<close>, a missing
    or zero \<^verbatim>\<open>listingChainId\<close> is \<open>0\<close>, a missing object or array is \<open>None\<close>.
  \<^item> Every object returned by a service carries a string \<^verbatim>\<open>name\<close> (the source types
    \<^verbatim>\<open>recentMints\<close> as \<^verbatim>\<open>string[]\<close>); the only falsy name is the empty string.
  \<^item> \<^verbatim>\<open>localStorage.setItem\<close> is taken to succeed, and \<^verbatim>\<open>JSON.parse\<close> to return what
    \<^verbatim>\<open>JSON.stringify\<close> was given.
  \<^item> One run of \<^verbatim>\<open>fetchMintStats\<close> is one atomic step: overlapping runs are not modelled.
\<close>

subsection \<open>Data\<close>

text \<open>The two fields shared by the snapshot, the cache record and the local variables
  \<^verbatim>\<open>totalMinted\<close>, \<^verbatim>\<open>recentMints\<close> of \<^verbatim>\<open>fetchMintStats\<close>.\<close>

record counts =
  totalMinted :: int
  recentMints :: "string list"

text \<open>\<^verbatim>\<open>interface MintStats\<close> (lines 6-11).\<close>

record MintStats = counts +
  isLoading :: bool
  error :: "string option"

text \<open>The object written to the cache (lines 154-158).\<close>

record CacheEntry = counts +
  timestamp :: int

text \<open>What \<^verbatim>\<open>localStorage.getItem\<close> can hold under a key: the JSON text of a cache
  record, or any other string (empty, not JSON, or JSON whose \<^verbatim>\<open>timestamp\<close> is missing
  or does not convert to a number), for which the initializer reaches its default.\<close>

datatype stored = Unusable | Json CacheEntry

type_synonym storage = "string \<rightharpoonup> stored"

text \<open>\<^verbatim>\<open>useAppConfig()\<close>: the declaring module is not part of the sources; the listing type
  is one of L1 and L2, and the source tests \<^verbatim>\<open>listingType === "L1"\<close>.\<close>

datatype ListingType = L1 | L2

record AppConfig =
  listingChainId :: nat
  listedName :: string
  listingType :: ListingType

subsection \<open>The services\<close>

text \<open>A promise either rejects (timeout, network failure, error status) or resolves.\<close>

datatype 'a reply = Rejected | Resolved 'a

text \<open>An object with a \<^verbatim>\<open>name\<close>, as returned by each of the three services.\<close>

record named =
  name :: string

text \<open>The two GraphQL documents posted to the subgraph: lines 69-78 ask for the
  \<^verbatim>\<open>subdomainCount\<close> of the parent and the \<^verbatim>\<open>domains\<close> whose parent it is; lines 98-106 ask
  for the \<^verbatim>\<open>subdomains\<close> nested in the parent. Both carry the parent node, \<^verbatim>\<open>first\<close>,
  \<^verbatim>\<open>orderBy\<close> and \<^verbatim>\<open>orderDirection\<close>.\<close>

datatype graph_query =
  DomainsOfParent (node: string) (first: nat) (orderBy: string) (orderDirection: string)
| SubdomainsOfDomain (node: string) (first: nat) (orderBy: string) (orderDirection: string)

text \<open>The shape read from a subgraph response: \<^verbatim>\<open>data.domain.subdomainCount\<close>,
  \<^verbatim>\<open>data.domain.subdomains\<close>, \<^verbatim>\<open>data.domains\<close>. A list is \<open>None\<close> when the field is missing
  or not an array.\<close>

record graph_domain =
  subdomainCount :: "int option"
  subdomains :: "named list option"

record graph_data =
  domain :: "graph_domain option"
  domains :: "named list option"

text \<open>The argument of \<^verbatim>\<open>ENS_CLIENT.getSubnames\<close> (lines 119-125).\<close>

record subnames_query =
  sq_name :: string
  searchString :: string
  sq_orderBy :: string
  sq_orderDirection :: string
  pageSize :: nat

text \<open>The body of the indexer's response (lines 137-146).\<close>

record indexer_data =
  items :: "named list option"
  totalItems :: "int option"

text \<open>Every request that leaves the hook, in the order of sending.\<close>

datatype request =
  Subgraph graph_query
| GetSubnames subnames_query
| IndexerNodes string nat

text \<open>The outside world during one run of \<^verbatim>\<open>fetchMintStats\<close>.
  \<open>namehash_normalize\<close> is \<^verbatim>\<open>namehash(normalize(name))\<close> of viem, \<open>None\<close> when
  \<^verbatim>\<open>normalize\<close> throws; \<open>axios_post\<close> gives \<^verbatim>\<open>response.data?.data\<close> for a posted query;
  \<open>axios_get\<close> gives the body for \<^verbatim>\<open>parentName\<close> and \<^verbatim>\<open>limit\<close>; \<open>date_now\<close> is
  \<^verbatim>\<open>Date.now()\<close> at the cache write.\<close>

record world =
  namehash_normalize :: "string \<Rightarrow> string option"
  axios_post :: "graph_query \<Rightarrow> graph_data option reply"
  getSubnames :: "subnames_query \<Rightarrow> named list option reply"
  axios_get :: "string \<Rightarrow> nat \<Rightarrow> indexer_data reply"
  date_now :: int

subsection \<open>The initial state (lines 19-46)\<close>

definition cache_key :: "string \<Rightarrow> string" where
  "cache_key nm = ''mintStats-'' @ nm"

definition empty_stats :: MintStats where
  "empty_stats = \<lparr>totalMinted = 0, recentMints = [], isLoading = True, error = None\<rparr>"

text \<open>The initializer of \<^verbatim>\<open>useState\<close>; \<open>now\<close> is \<^verbatim>\<open>Date.now()\<close> at that moment. Whatever
  is thrown inside is caught, and the default state is returned.\<close>

definition initialStats :: "AppConfig \<Rightarrow> int \<Rightarrow> storage \<Rightarrow> MintStats" where
  "initialStats cfg now ls =
     (if listedName cfg = [] then empty_stats
      else case ls (cache_key (listedName cfg)) of
             None \<Rightarrow> empty_stats
           | Some Unusable \<Rightarrow> empty_stats
           | Some (Json parsed) \<Rightarrow>
               if now - timestamp parsed < 3600000
               then \<lparr>totalMinted = totalMinted parsed, recentMints = recentMints parsed,
                     isLoading = False, error = None\<rparr>
               else empty_stats)"

subsection \<open>One run of fetchMintStats (lines 49-176)\<close>

text \<open>What the component and its environment hold between two runs: the React state,
  every snapshot handed to the consumers so far (one per \<^verbatim>\<open>setStats\<close>), the browser
  storage, and the requests sent so far.\<close>

record session =
  state :: MintStats
  rendered :: "MintStats list"
  localStorage :: storage
  traffic :: "request list"

definition setStats :: "(MintStats \<Rightarrow> MintStats) \<Rightarrow> session \<Rightarrow> session" where
  "setStats f s = s\<lparr>state := f (state s), rendered := rendered s @ [f (state s)]\<rparr>"

definition setItem :: "string \<Rightarrow> CacheEntry \<Rightarrow> session \<Rightarrow> session" where
  "setItem k e s = s\<lparr>localStorage := (localStorage s)(k \<mapsto> Json e)\<rparr>"

text \<open>The local variables of a run, with the requests it has sent.\<close>

record locals = counts +
  sent :: "request list"

text \<open>A block of statements ends normally or by a throw; either way the assignments
  made before are kept.\<close>

datatype completion = Thrown locals | Normal locals

definition send :: "request \<Rightarrow> locals \<Rightarrow> locals" where
  "send r l = l\<lparr>sent := sent l @ [r]\<rparr>"

text \<open>Lines 81-93: reading count and names from the first subgraph response.\<close>

definition read_count :: "graph_data option \<Rightarrow> locals \<Rightarrow> locals" where
  "read_count data l =
     (case data of
        None \<Rightarrow> l
      | Some d \<Rightarrow>
          (case domain d of
             None \<Rightarrow> l
           | Some dm \<Rightarrow>
               (case subdomainCount dm of
                  None \<Rightarrow> l
                | Some n \<Rightarrow> if n = 0 then l else l\<lparr>totalMinted := n\<rparr>)))"

definition read_domains :: "graph_data option \<Rightarrow> locals \<Rightarrow> locals" where
  "read_domains data l =
     (case data of
        None \<Rightarrow> l
      | Some d \<Rightarrow>
          (case domains d of
             None \<Rightarrow> l
           | Some ds \<Rightarrow> l\<lparr>recentMints := map name (filter (\<lambda>sub. name sub \<noteq> []) ds)\<rparr>))"

text \<open>Lines 108-111: reading the names from the nested response.\<close>

definition read_nested :: "graph_data option \<Rightarrow> locals \<Rightarrow> locals" where
  "read_nested data l =
     (case data of
        None \<Rightarrow> l
      | Some d \<Rightarrow>
          (case domain d of
             None \<Rightarrow> l
           | Some dm \<Rightarrow>
               (case subdomains dm of
                  None \<Rightarrow> l
                | Some nestedDomains \<Rightarrow> l\<lparr>recentMints := map name nestedDomains\<rparr>)))"

text \<open>Lines 65-113: the body of the inner \<^verbatim>\<open>try\<close>.\<close>

definition subgraph_block :: "world \<Rightarrow> string \<Rightarrow> nat \<Rightarrow> locals \<Rightarrow> completion" where
  "subgraph_block w nm limit l =
     (case namehash_normalize w nm of
        None \<Rightarrow> Thrown l
      | Some parentNode \<Rightarrow>
          (let q = DomainsOfParent parentNode limit ''createdAt'' ''desc'';
               l1 = send (Subgraph q) l
           in case axios_post w q of
                Rejected \<Rightarrow> Thrown l1
              | Resolved data \<Rightarrow>
                  (let l2 = read_domains data (read_count data l1)
                   in if totalMinted l2 > 0 \<and> length (recentMints l2) = 0
                      then (let q' = SubdomainsOfDomain parentNode limit ''createdAt'' ''desc'';
                                l3 = send (Subgraph q') l2
                            in case axios_post w q' of
                                 Rejected \<Rightarrow> Thrown l3
                               | Resolved nested \<Rightarrow> Normal (read_nested nested l3))
                      else Normal l2)))"

text \<open>Lines 118-133: the fallback inside the \<^verbatim>\<open>catch\<close>, with its own \<^verbatim>\<open>try\<close>.\<close>

definition registry_block :: "world \<Rightarrow> string \<Rightarrow> nat \<Rightarrow> locals \<Rightarrow> completion" where
  "registry_block w nm limit l =
     (let q = \<lparr>sq_name = nm, searchString = [], sq_orderBy = ''createdAt'',
                sq_orderDirection = ''desc'', pageSize = limit\<rparr>;
          l1 = send (GetSubnames q) l
      in case getSubnames w q of
           Rejected \<Rightarrow> Thrown l1
         | Resolved None \<Rightarrow> Normal l1
         | Resolved (Some subnames) \<Rightarrow>
             if length subnames > 0
             then Normal (l1\<lparr>totalMinted := int (length subnames),
                            recentMints := map name (take limit subnames)\<rparr>)
             else Normal l1)"

text \<open>Lines 62-134: the L1 branch. The inner \<^verbatim>\<open>catch\<close> runs the fallback, and the
  fallback's own \<^verbatim>\<open>catch\<close> only logs, so the branch never throws.\<close>

definition l1_block :: "world \<Rightarrow> string \<Rightarrow> nat \<Rightarrow> locals \<Rightarrow> completion" where
  "l1_block w nm limit l =
     (case subgraph_block w nm limit l of
        Normal l' \<Rightarrow> Normal l'
      | Thrown l' \<Rightarrow>
          (case registry_block w nm limit l' of
             Normal l'' \<Rightarrow> Normal l''
           | Thrown l'' \<Rightarrow> Normal l''))"

text \<open>Lines 135-150: the L2 branch.\<close>

definition l2_block :: "world \<Rightarrow> string \<Rightarrow> nat \<Rightarrow> locals \<Rightarrow> completion" where
  "l2_block w nm limit l =
     (let l1 = send (IndexerNodes nm limit) l
      in case axios_get w nm limit of
           Rejected \<Rightarrow> Thrown l1
         | Resolved data \<Rightarrow>
             Normal (l1\<lparr>totalMinted := (case totalItems data of
                                           None \<Rightarrow> 0
                                         | Some n \<Rightarrow> if n = 0 then 0 else n),
                         recentMints := (case items data of
                                           None \<Rightarrow> []
                                         | Some its \<Rightarrow> map name (take limit its))\<rparr>))"

text \<open>Lines 58-59: the local variables as declared, nothing sent yet.\<close>

definition declared :: locals where
  "declared = \<lparr>totalMinted = 0, recentMints = [], sent = []\<rparr>"

text \<open>Lines 58-150: the declarations and the branch on the listing type.\<close>

definition fetch_block :: "AppConfig \<Rightarrow> world \<Rightarrow> completion" where
  "fetch_block cfg w =
     (let l = declared;
          limit = 100
      in if listingType cfg = L1 then l1_block w (listedName cfg) limit l
         else l2_block w (listedName cfg) limit l)"

text \<open>\<^verbatim>\<open>fetchMintStats\<close>. \<open>stats\<close> is the variable \<^verbatim>\<open>stats\<close> of the closure (line 54), which
  need not be the current React state; the updater functions of lines 55 and 170 receive
  the current state.\<close>

definition fetchMintStats :: "AppConfig \<Rightarrow> MintStats \<Rightarrow> world \<Rightarrow> session \<Rightarrow> session" where
  "fetchMintStats cfg stats w s =
     (if listingChainId cfg = 0 \<or> listedName cfg = [] then s
      else
        (let s1 = (if totalMinted stats = 0
                   then setStats (\<lambda>prev. prev\<lparr>isLoading := True, error := None\<rparr>) s
                   else s)
         in case fetch_block cfg w of
              Normal l \<Rightarrow>
                (let s2 = s1\<lparr>traffic := traffic s1 @ sent l\<rparr>;
                     s3 = (if totalMinted l > 0
                           then setItem (cache_key (listedName cfg))
                                  \<lparr>totalMinted = totalMinted l, recentMints = recentMints l,
                                   timestamp = date_now w\<rparr> s2
                           else s2)
                 in setStats (\<lambda>_. \<lparr>totalMinted = totalMinted l, recentMints = recentMints l,
                                    isLoading = False, error = None\<rparr>) s3)
            | Thrown l \<Rightarrow>
                setStats (\<lambda>prev. prev\<lparr>isLoading := False,
                                       error := Some ''Failed to fetch mint statistics''\<rparr>)
                  (s1\<lparr>traffic := traffic s1 @ sent l\<rparr>)))"

subsection \<open>The hook (lines 15-187)\<close>

text \<open>The effect of lines 48-184 depends on \<^verbatim>\<open>[listingChainId, listedName, listingType]\<close>
  only. With a fixed configuration it is installed once, after the first render, and the
  function \<^verbatim>\<open>fetchMintStats\<close> it defines, which is the one called at once and the one given
  to \<^verbatim>\<open>setInterval\<close>, closes over the \<^verbatim>\<open>stats\<close> of that first render: the initial state.
  Each element of the list of worlds is the environment met by one run.\<close>

fun refreshes :: "AppConfig \<Rightarrow> MintStats \<Rightarrow> world list \<Rightarrow> session \<Rightarrow> session" where
  "refreshes cfg stats [] s = s"
| "refreshes cfg stats (w # ws) s = refreshes cfg stats ws (fetchMintStats cfg stats w s)"

definition mount :: "AppConfig \<Rightarrow> int \<Rightarrow> storage \<Rightarrow> session" where
  "mount cfg now ls =
     \<lparr>state = initialStats cfg now ls, rendered = [initialStats cfg now ls],
      localStorage = ls, traffic = []\<rparr>"

definition useMintStats :: "AppConfig \<Rightarrow> int \<Rightarrow> storage \<Rightarrow> world list \<Rightarrow> session" where
  "useMintStats cfg now ls ws = refreshes cfg (initialStats cfg now ls) ws (mount cfg now ls)"

subsection \<open>Observations on a run\<close>

text \<open>The subgraph queries and the \<^verbatim>\<open>getSubnames\<close> calls among the requests sent.\<close>

fun subgraph_queries :: "request list \<Rightarrow> graph_query list" where
  "subgraph_queries [] = []"
| "subgraph_queries (Subgraph q # rs) = q # subgraph_queries rs"
| "subgraph_queries (GetSubnames q # rs) = subgraph_queries rs"
| "subgraph_queries (IndexerNodes nm limit # rs) = subgraph_queries rs"

fun fallback_queries :: "request list \<Rightarrow> subnames_query list" where
  "fallback_queries [] = []"
| "fallback_queries (Subgraph q # rs) = fallback_queries rs"
| "fallback_queries (GetSubnames q # rs) = q # fallback_queries rs"
| "fallback_queries (IndexerNodes nm limit # rs) = fallback_queries rs"

text \<open>The subgraph adapter fails on its first request: \<^verbatim>\<open>normalize\<close> throws, or the first
  \<^verbatim>\<open>axios.post\<close> rejects.\<close>

definition first_request_fails :: "world \<Rightarrow> string \<Rightarrow> bool" where
  "first_request_fails w nm =
     (case namehash_normalize w nm of
        None \<Rightarrow> True
      | Some parentNode \<Rightarrow>
          axios_post w (DomainsOfParent parentNode 100 ''createdAt'' ''desc'') = Rejected)"

text \<open>The subgraph answers the two queries of a run with at most \<open>limit\<close> entries.\<close>

definition subgraph_within_limit :: "world \<Rightarrow> string \<Rightarrow> nat \<Rightarrow> bool" where
  "subgraph_within_limit w nm limit =
     (case namehash_normalize w nm of
        None \<Rightarrow> True
      | Some parentNode \<Rightarrow>
          (case axios_post w (DomainsOfParent parentNode limit ''createdAt'' ''desc'') of
             Rejected \<Rightarrow> True
           | Resolved None \<Rightarrow> True
           | Resolved (Some d) \<Rightarrow>
               (case domains d of None \<Rightarrow> True | Some ds \<Rightarrow> length ds \<le> limit))
          \<and> (case axios_post w (SubdomainsOfDomain parentNode limit ''createdAt'' ''desc'') of
               Rejected \<Rightarrow> True
             | Resolved None \<Rightarrow> True
             | Resolved (Some d) \<Rightarrow>
                 (case domain d of
                    None \<Rightarrow> True
                  | Some dm \<Rightarrow>
                      (case subdomains dm of
                         None \<Rightarrow> True
                       | Some ns \<Rightarrow> length ns \<le> limit))))"

text \<open>The subgraph block of a run throws, so that the run takes the fallback.\<close>

definition subgraph_throws :: "world \<Rightarrow> string \<Rightarrow> nat \<Rightarrow> bool" where
  "subgraph_throws w nm limit =
     (case subgraph_block w nm limit declared of Thrown l \<Rightarrow> True | Normal l \<Rightarrow> False)"

text \<open>No snapshot of the session, current or handed out, lists more than 100 names.\<close>

definition within_limit :: "session \<Rightarrow> bool" where
  "within_limit s =
     (length (recentMints (state s)) \<le> 100
      \<and> list_all (\<lambda>m. length (recentMints m) \<le> 100) (rendered s))"

text \<open>The count and the name list that lines 81-93 read from a first response.\<close>

definition response_count :: "graph_data option \<Rightarrow> int" where
  "response_count data = totalMinted (read_count data declared)"

definition response_names :: "graph_data option \<Rightarrow> string list" where
  "response_names data = recentMints (read_domains data declared)"

subsection \<open>Example inputs\<close>

definition alice :: AppConfig where
  "alice = \<lparr>listingChainId = 1, listedName = ''alice.eth'', listingType = L1\<rparr>"

definition bob :: AppConfig where
  "bob = \<lparr>listingChainId = 8453, listedName = ''bob.eth'', listingType = L2\<rparr>"

text \<open>A world in which every service is unreachable.\<close>

definition offline :: world where
  "offline = \<lparr>namehash_normalize = (\<lambda>nm. Some (''node:'' @ nm)),
              axios_post = (\<lambda>q. Rejected),
              getSubnames = (\<lambda>q. Rejected),
              axios_get = (\<lambda>nm limit. Rejected),
              date_now = 1000\<rparr>"

text \<open>A session that shows \<open>st\<close> over the storage \<open>ls\<close>.\<close>

definition showing :: "MintStats \<Rightarrow> storage \<Rightarrow> session" where
  "showing st ls = \<lparr>state = st, rendered = [st], localStorage = ls, traffic = []\<rparr>"

definition ten_shown :: MintStats where
  "ten_shown = \<lparr>totalMinted = 10, recentMints = [''old.eth''], isLoading = False, error = None\<rparr>"

definition ten_cached :: storage where
  "ten_cached =
     [''mintStats-alice.eth'' \<mapsto>
        Json \<lparr>totalMinted = 10, recentMints = [''old.eth''], timestamp = 0\<rparr>,
      ''mintStats-bob.eth'' \<mapsto>
        Json \<lparr>totalMinted = 10, recentMints = [''old.eth''], timestamp = 0\<rparr>]"

text \<open>The subgraph response \<^verbatim>\<open>{domain: {subdomainCount: 3}, domains: [{name: "x.alice.eth"},
  {name: "y.alice.eth"}]}\<close>, and a world whose subgraph gives it.\<close>

definition three_of_alice :: graph_data where
  "three_of_alice =
     \<lparr>domain = Some \<lparr>subdomainCount = Some 3, subdomains = None\<rparr>,
      domains = Some [\<lparr>name = ''x.alice.eth''\<rparr>, \<lparr>name = ''y.alice.eth''\<rparr>]\<rparr>"

definition subgraph_up :: world where
  "subgraph_up = offline\<lparr>axios_post := (\<lambda>q. Resolved (Some three_of_alice))\<rparr>"

text \<open>The response \<^verbatim>\<open>{domain: {subdomainCount: 5}, domains: []}\<close>: a count without names.\<close>

definition count_only :: graph_data where
  "count_only =
     \<lparr>domain = Some \<lparr>subdomainCount = Some 5, subdomains = None\<rparr>, domains = Some []\<rparr>"

text \<open>The response \<^verbatim>\<open>{domain: {subdomains: [{name: "x.alice.eth"}, {name: "y.alice.eth"}]}}\<close>
  to the nested query.\<close>

definition three_nested :: graph_data where
  "three_nested =
     \<lparr>domain = Some \<lparr>subdomainCount = None,
                      subdomains = Some [\<lparr>name = ''x.alice.eth''\<rparr>,
                                         \<lparr>name = ''y.alice.eth''\<rparr>]\<rparr>,
      domains = None\<rparr>"

text \<open>The subgraph gives a count without names and answers the nested query.\<close>

definition list_missing :: world where
  "list_missing = offline
     \<lparr>axios_post := (\<lambda>q. case q of
                            DomainsOfParent nd n ob od \<Rightarrow> Resolved (Some count_only)
                          | SubdomainsOfDomain nd n ob od \<Rightarrow> Resolved (Some three_nested))\<rparr>"

text \<open>The subgraph gives a count without names and then times out on the nested query;
  the registry client answers with an empty page.\<close>

definition nested_down :: world where
  "nested_down = offline
     \<lparr>axios_post := (\<lambda>q. case q of
                            DomainsOfParent nd n ob od \<Rightarrow> Resolved (Some count_only)
                          | SubdomainsOfDomain nd n ob od \<Rightarrow> Rejected),
      getSubnames := (\<lambda>q. Resolved (Some []))\<rparr>"

text \<open>The subgraph gives a count without names and then times out on the nested query;
  the registry client is unreachable.\<close>

definition count_then_down :: world where
  "count_then_down = offline
     \<lparr>axios_post := (\<lambda>q. case q of
                            DomainsOfParent nd n ob od \<Rightarrow> Resolved (Some count_only)
                          | SubdomainsOfDomain nd n ob od \<Rightarrow> Rejected)\<rparr>"

text \<open>The subgraph is unreachable; the registry client answers with a page of two.\<close>

definition page_of_two :: world where
  "page_of_two = offline
     \<lparr>getSubnames := (\<lambda>q. Resolved (Some [\<lparr>name = ''p.alice.eth''\<rparr>,
                                            \<lparr>name = ''q.alice.eth''\<rparr>]))\<rparr>"

text \<open>The subgraph answers a query for the first 100 with 101 entries.\<close>

definition overfull :: world where
  "overfull = offline
     \<lparr>axios_post := (\<lambda>q. Resolved (Some
        \<lparr>domain = Some \<lparr>subdomainCount = Some 101, subdomains = None\<rparr>,
         domains = Some (replicate 101 \<lparr>name = ''n.alice.eth''\<rparr>)\<rparr>))\<rparr>"

text \<open>The subgraph answers the first query with a count of 101 and 101 entries without a
  name, and times out on the nested query; the registry client answers with 150 entries.\<close>

definition unnamed_overfull :: world where
  "unnamed_overfull = offline
     \<lparr>axios_post := (\<lambda>q. case q of
          DomainsOfParent nd n ob od \<Rightarrow>
            Resolved (Some \<lparr>domain = Some \<lparr>subdomainCount = Some 101, subdomains = None\<rparr>,
                            domains = Some (replicate 101 \<lparr>name = []\<rparr>)\<rparr>)
        | SubdomainsOfDomain nd n ob od \<Rightarrow> Rejected),
      getSubnames := (\<lambda>q. Resolved (Some (replicate 150 \<lparr>name = ''r.alice.eth''\<rparr>)))\<rparr>"

text \<open>The indexer answers with 150 items.\<close>

definition crowded_indexer :: world where
  "crowded_indexer = offline
     \<lparr>axios_get := (\<lambda>nm limit. Resolved \<lparr>items = Some (replicate 150 \<lparr>name = ''n.bob.eth''\<rparr>),
                                           totalItems = Some 150\<rparr>)\<rparr>"

text \<open>The indexer answers \<^verbatim>\<open>{items: [{name: "a.bob.eth"}], totalItems: 0}\<close>, and
  \<^verbatim>\<open>{items: [], totalItems: 0}\<close>.\<close>

definition inconsistent_indexer :: world where
  "inconsistent_indexer = offline
     \<lparr>axios_get := (\<lambda>nm limit. Resolved \<lparr>items = Some [\<lparr>name = ''a.bob.eth''\<rparr>],
                                           totalItems = Some 0\<rparr>)\<rparr>"

definition idle_indexer :: world where
  "idle_indexer = offline
     \<lparr>axios_get := (\<lambda>nm limit. Resolved \<lparr>items = Some [], totalItems = Some 0\<rparr>)\<rparr>"

section \<open>Properties\<close>

subsection \<open>Auxiliary facts\<close>

lemmas example_defs = alice_def bob_def offline_def showing_def ten_shown_def ten_cached_def
  three_of_alice_def subgraph_up_def count_only_def three_nested_def list_missing_def
  nested_down_def page_of_two_def overfull_def inconsistent_indexer_def idle_indexer_def
  count_then_down_def unnamed_overfull_def crowded_indexer_def

lemmas run_defs = fetchMintStats_def fetch_block_def l1_block_def l2_block_def
  subgraph_block_def registry_block_def read_count_def read_domains_def read_nested_def
  send_def declared_def setStats_def setItem_def cache_key_def Let_def

lemma subgraph_queries_append:
  "subgraph_queries (xs @ ys) = subgraph_queries xs @ subgraph_queries ys"
  by (induction xs rule: subgraph_queries.induct) simp_all

lemma fallback_queries_append:
  "fallback_queries (xs @ ys) = fallback_queries xs @ fallback_queries ys"
  by (induction xs rule: fallback_queries.induct) simp_all

text \<open>What a run leaves behind when the branch on the listing type ends normally, and
  when it throws.\<close>

lemma fetch_Normal:
  assumes "listingChainId cfg \<noteq> 0" and "listedName cfg \<noteq> []"
    and "fetch_block cfg w = Normal l"
  shows "state (fetchMintStats cfg stats w s) =
           \<lparr>totalMinted = totalMinted l, recentMints = recentMints l,
            isLoading = False, error = None\<rparr>"
    and "localStorage (fetchMintStats cfg stats w s) =
           (if 0 < totalMinted l
            then (localStorage s)(cache_key (listedName cfg) \<mapsto>
                   Json \<lparr>totalMinted = totalMinted l, recentMints = recentMints l,
                         timestamp = date_now w\<rparr>)
            else localStorage s)"
    and "traffic (fetchMintStats cfg stats w s) = traffic s @ sent l"
    and "rendered (fetchMintStats cfg stats w s) =
           rendered s
           @ (if totalMinted stats = 0
              then [(state s)\<lparr>isLoading := True, error := None\<rparr>] else [])
           @ [\<lparr>totalMinted = totalMinted l, recentMints = recentMints l,
               isLoading = False, error = None\<rparr>]"
  using assms by (simp_all add: fetchMintStats_def setStats_def setItem_def Let_def)

lemma fetch_Thrown:
  assumes "listingChainId cfg \<noteq> 0" and "listedName cfg \<noteq> []"
    and "fetch_block cfg w = Thrown l"
  shows "state (fetchMintStats cfg stats w s) =
           (state s)\<lparr>isLoading := False, error := Some ''Failed to fetch mint statistics''\<rparr>"
    and "localStorage (fetchMintStats cfg stats w s) = localStorage s"
    and "traffic (fetchMintStats cfg stats w s) = traffic s @ sent l"
    and "rendered (fetchMintStats cfg stats w s) =
           rendered s
           @ (if totalMinted stats = 0
              then [(state s)\<lparr>isLoading := True, error := None\<rparr>] else [])
           @ [(state s)\<lparr>isLoading := False,
                         error := Some ''Failed to fetch mint statistics''\<rparr>]"
  using assms by (simp_all add: fetchMintStats_def setStats_def setItem_def Let_def)

text \<open>The loading snapshot of a run is decided by the \<^verbatim>\<open>stats\<close> of the closure alone: when
  its count is 0, the run first hands out the current state with the flag raised, whatever
  the current count is.\<close>

lemma flag_follows_closure:
  assumes "listingChainId cfg \<noteq> 0" and "listedName cfg \<noteq> []" and "totalMinted stats = 0"
  shows "rendered (fetchMintStats cfg stats w s) =
           rendered s @ [(state s)\<lparr>isLoading := True, error := None\<rparr>,
                         state (fetchMintStats cfg stats w s)]"
proof (cases "fetch_block cfg w")
  case (Thrown l)
  show ?thesis
    using fetch_Thrown(1,4)[OF assms(1,2) Thrown, of stats s] assms(3) by simp
next
  case (Normal l)
  show ?thesis
    using fetch_Normal(1,4)[OF assms(1,2) Normal, of stats s] assms(3) by simp
qed

text \<open>Each reading step touches one variable.\<close>

lemma declared_fields [simp]:
  "totalMinted declared = 0" "recentMints declared = []" "sent declared = []"
  by (simp_all add: declared_def)

lemma send_fields [simp]:
  "totalMinted (send r l) = totalMinted l"
  "recentMints (send r l) = recentMints l"
  "sent (send r l) = sent l @ [r]"
  by (simp_all add: send_def)

lemma read_count_fields [simp]:
  "recentMints (read_count data l) = recentMints l"
  "sent (read_count data l) = sent l"
  by (simp_all add: read_count_def split: option.splits)

lemma read_domains_fields [simp]:
  "totalMinted (read_domains data l) = totalMinted l"
  "sent (read_domains data l) = sent l"
  by (simp_all add: read_domains_def split: option.splits)

lemma read_nested_fields [simp]:
  "totalMinted (read_nested data l) = totalMinted l"
  "sent (read_nested data l) = sent l"
  by (simp_all add: read_nested_def split: option.splits)

lemma read_count_declared:
  "totalMinted l = 0 \<Longrightarrow> totalMinted (read_count data l) = response_count data"
  by (simp add: response_count_def read_count_def declared_def split: option.splits)

lemma read_domains_declared:
  "recentMints l = [] \<Longrightarrow> recentMints (read_domains data l) = response_names data"
  by (simp add: response_names_def read_domains_def declared_def split: option.splits)

text \<open>The L1 branch, by what the subgraph block and the fallback do.\<close>

lemma l1_block_cases:
  "l1_block w nm limit l =
     (case subgraph_block w nm limit l of
        Normal l' \<Rightarrow> Normal l'
      | Thrown l' \<Rightarrow>
          (case getSubnames w \<lparr>sq_name = nm, searchString = [], sq_orderBy = ''createdAt'',
                                sq_orderDirection = ''desc'', pageSize = limit\<rparr> of
             Rejected \<Rightarrow>
               Normal (send (GetSubnames \<lparr>sq_name = nm, searchString = [],
                 sq_orderBy = ''createdAt'', sq_orderDirection = ''desc'',
                 pageSize = limit\<rparr>) l')
           | Resolved None \<Rightarrow>
               Normal (send (GetSubnames \<lparr>sq_name = nm, searchString = [],
                 sq_orderBy = ''createdAt'', sq_orderDirection = ''desc'',
                 pageSize = limit\<rparr>) l')
           | Resolved (Some subnames) \<Rightarrow>
               if subnames = []
               then Normal (send (GetSubnames \<lparr>sq_name = nm, searchString = [],
                 sq_orderBy = ''createdAt'', sq_orderDirection = ''desc'',
                 pageSize = limit\<rparr>) l')
               else Normal ((send (GetSubnames \<lparr>sq_name = nm, searchString = [],
                 sq_orderBy = ''createdAt'', sq_orderDirection = ''desc'',
                 pageSize = limit\<rparr>) l')
                       \<lparr>totalMinted := int (length subnames),
                        recentMints := map name (take limit subnames)\<rparr>)))"
  by (simp add: l1_block_def registry_block_def Let_def
           split: completion.splits reply.splits option.splits)

text \<open>When the subgraph block throws, no name has been read and no fallback sent; the
  count is still 0 unless a first response had been read.\<close>

lemma subgraph_Thrown_facts:
  assumes "subgraph_block w nm limit declared = Thrown l"
  shows "recentMints l = []" and "fallback_queries (sent l) = []"
    and "namehash_normalize w nm = None \<Longrightarrow> totalMinted l = 0"
    and "namehash_normalize w nm = Some parentNode \<Longrightarrow>
           axios_post w (DomainsOfParent parentNode limit ''createdAt'' ''desc'') = Rejected \<Longrightarrow>
           totalMinted l = 0"
  using assms
  by (auto simp add: subgraph_block_def declared_def send_def read_count_def read_domains_def
        read_nested_def Let_def split: option.splits reply.splits if_splits)

lemma first_request_fails_count:
  assumes "subgraph_block w nm 100 declared = Thrown l" and "first_request_fails w nm"
  shows "totalMinted l = 0"
  using assms subgraph_Thrown_facts(3,4)[OF assms(1)]
  by (auto simp add: first_request_fails_def split: option.splits)

text \<open>After a throw of the subgraph block the L1 branch sends the fallback request, once,
  and ends normally.\<close>

lemma l1_after_throw:
  assumes "subgraph_block w nm limit l = Thrown l'"
  shows "\<exists>l''. l1_block w nm limit l = Normal l''
           \<and> sent l'' = sent l' @ [GetSubnames \<lparr>sq_name = nm, searchString = [],
                 sq_orderBy = ''createdAt'', sq_orderDirection = ''desc'',
                 pageSize = limit\<rparr>]"
  using assms by (simp add: l1_block_cases split: reply.splits option.splits)

subsection \<open>Both L1 adapters fail\<close>

text \<open>
  Claim C1: for classification L1, if GraphQuery fails and RegistryFallbackQuery also
  fails within the same refresh cycle, the aggregation fails as a recoverable error: the
  snapshot's error field is set and the last good data (cached or previous live result)
  remains visible to consumers, rather than the snapshot being replaced by an empty
  zero-count result with no error.

  The source does not do this. The outer \<^verbatim>\<open>catch\<close> of lines 168-175 reports a failed fetch
  as an error over the previous data, and the L2 branch reaches it; the L1 branch cannot,
  because the \<^verbatim>\<open>catch\<close> of lines 131-133 around the fallback only logs. The run goes on to
  line 161 with the variables as they stand. With the subgraph and the registry client both
  unreachable, a component that shows ten names sends its two requests and ends with the
  empty snapshot and no error.
\<close>

theorem l1_adapters_exhausted_wipes_snapshot:
  "traffic (fetchMintStats alice ten_shown offline (showing ten_shown ten_cached)) =
     [Subgraph (DomainsOfParent ''node:alice.eth'' 100 ''createdAt'' ''desc''),
      GetSubnames \<lparr>sq_name = ''alice.eth'', searchString = [], sq_orderBy = ''createdAt'',
                   sq_orderDirection = ''desc'', pageSize = 100\<rparr>]
   \<and> state (showing ten_shown ten_cached) =
       \<lparr>totalMinted = 10, recentMints = [''old.eth''], isLoading = False, error = None\<rparr>
   \<and> state (fetchMintStats alice ten_shown offline (showing ten_shown ten_cached)) =
       \<lparr>totalMinted = 0, recentMints = [], isLoading = False, error = None\<rparr>"
  by (simp add: example_defs run_defs)

subsection \<open>The loading flag\<close>

text \<open>
  Claim C2: the loading flag is surfaced as true only when the currently known
  \<^verbatim>\<open>totalMinted\<close> is 0; once any non-zero \<^verbatim>\<open>totalMinted\<close> has become visible in the
  snapshot, no subsequent periodic background refresh ever sets \<^verbatim>\<open>isLoading\<close> back to
  true.

  Line 54 tests \<^verbatim>\<open>stats.totalMinted\<close>, and \<^verbatim>\<open>stats\<close> there is the state of the render that
  installed the effect, not the current one. A component mounted without a cache entry
  therefore raises the flag at every run (\<open>flag_follows_closure\<close>), while one mounted
  over a fresh entry never raises it. Two runs against a subgraph that reports three
  subnames: the fourth snapshot handed to the consumers shows the three subnames and
  \<^verbatim>\<open>isLoading\<close> true.
\<close>

theorem loading_flag_raised_over_visible_data:
  "rendered (useMintStats alice 0 Map.empty [subgraph_up, subgraph_up]) =
     [\<lparr>totalMinted = 0, recentMints = [], isLoading = True, error = None\<rparr>,
      \<lparr>totalMinted = 0, recentMints = [], isLoading = True, error = None\<rparr>,
      \<lparr>totalMinted = 3, recentMints = [''x.alice.eth'', ''y.alice.eth''],
        isLoading = False, error = None\<rparr>,
      \<lparr>totalMinted = 3, recentMints = [''x.alice.eth'', ''y.alice.eth''],
        isLoading = True, error = None\<rparr>,
      \<lparr>totalMinted = 3, recentMints = [''x.alice.eth'', ''y.alice.eth''],
        isLoading = False, error = None\<rparr>]"
  by (simp add: useMintStats_def mount_def initialStats_def empty_stats_def example_defs
        run_defs)

subsection \<open>A successful subgraph query\<close>

text \<open>
  Claim C3: for every parent name with classification L1, if GraphQuery succeeds with
  \<^verbatim>\<open>totalMinted = N > 0\<close> and a non-empty name list, the resulting snapshot equals that
  adapter result verbatim (count and name list adopted wholesale, \<^verbatim>\<open>isLoading\<close> false,
  \<^verbatim>\<open>error\<close> null) and the cache entry is updated. The witness is the scenario of the
  specification: the response \<^verbatim>\<open>{subdomainCount: 3, domains: [{name: "x.alice.eth"},
  {name: "y.alice.eth"}]}\<close> for the parent \<^verbatim>\<open>alice.eth\<close>.
\<close>

theorem graph_success_adopted_verbatim:
  assumes "listingChainId cfg \<noteq> 0" and "listedName cfg \<noteq> []" and "listingType cfg = L1"
    and "namehash_normalize w (listedName cfg) = Some parentNode"
    and "axios_post w (DomainsOfParent parentNode 100 ''createdAt'' ''desc'') = Resolved data"
    and "response_count data = N" and "0 < N"
    and "response_names data = names" and "names \<noteq> []"
  shows "state (fetchMintStats cfg stats w s) =
           \<lparr>totalMinted = N, recentMints = names, isLoading = False, error = None\<rparr>
       \<and> localStorage (fetchMintStats cfg stats w s) =
           (localStorage s)(cache_key (listedName cfg) \<mapsto>
              Json \<lparr>totalMinted = N, recentMints = names, timestamp = date_now w\<rparr>)"
proof -
  let ?l = "read_domains data (read_count data
              (send (Subgraph (DomainsOfParent parentNode 100 ''createdAt'' ''desc'')) declared))"
  have cnt: "totalMinted ?l = N"
    using assms(6) by (simp add: read_count_declared)
  have nms: "recentMints ?l = names"
    using assms(8) by (simp add: read_domains_declared)
  have "subgraph_block w (listedName cfg) 100 declared = Normal ?l"
    using assms(4,5,9) cnt nms by (simp add: subgraph_block_def Let_def)
  then have blk: "fetch_block cfg w = Normal ?l"
    using assms(3) by (simp add: fetch_block_def l1_block_def)
  show ?thesis
    using fetch_Normal(1,2)[OF assms(1,2) blk, of stats s] cnt nms assms(7) by simp
qed

theorem graph_success_adopted_verbatim_witness:
  "state (fetchMintStats alice empty_stats subgraph_up (mount alice 0 Map.empty)) =
     \<lparr>totalMinted = 3, recentMints = [''x.alice.eth'', ''y.alice.eth''],
      isLoading = False, error = None\<rparr>
   \<and> localStorage (fetchMintStats alice empty_stats subgraph_up (mount alice 0 Map.empty)) =
       [''mintStats-alice.eth'' \<mapsto>
          Json \<lparr>totalMinted = 3, recentMints = [''x.alice.eth'', ''y.alice.eth''],
                timestamp = 1000\<rparr>]"
  using graph_success_adopted_verbatim
    [where cfg = alice and w = subgraph_up and parentNode = "''node:alice.eth''"
      and data = "Some three_of_alice" and N = 3
      and names = "[''x.alice.eth'', ''y.alice.eth'']"
      and stats = empty_stats and s = "mount alice 0 Map.empty"]
  by (simp add: example_defs response_count_def response_names_def read_count_def
        read_domains_def declared_def mount_def cache_key_def)

subsection \<open>A failing indexer query\<close>

text \<open>
  Claim C4: for classification L2, only IndexerQuery is used with no further fallback,
  and when IndexerQuery fails the resulting snapshot has \<^verbatim>\<open>isLoading\<close> false, a non-null
  error set, the previously held \<^verbatim>\<open>totalMinted\<close> and \<^verbatim>\<open>recentMints\<close> retained unchanged,
  and no cache write occurs. The one request of an L2 run is the indexer's, whatever comes
  back; after a rejection the snapshot is the previous one with the flag cleared and the
  message set, and the storage is the previous storage.
\<close>

theorem l2_failure_keeps_snapshot:
  assumes "listingChainId cfg \<noteq> 0" and "listedName cfg \<noteq> []" and "listingType cfg = L2"
  shows "traffic (fetchMintStats cfg stats w s) =
           traffic s @ [IndexerNodes (listedName cfg) 100]
       \<and> (axios_get w (listedName cfg) 100 = Rejected \<longrightarrow>
            state (fetchMintStats cfg stats w s) =
              (state s)\<lparr>isLoading := False,
                         error := Some ''Failed to fetch mint statistics''\<rparr>
          \<and> localStorage (fetchMintStats cfg stats w s) = localStorage s)"
proof (cases "axios_get w (listedName cfg) 100")
  case Rejected
  then have blk: "fetch_block cfg w =
      Thrown (send (IndexerNodes (listedName cfg) 100) declared)"
    using assms(3) by (simp add: fetch_block_def l2_block_def Let_def)
  show ?thesis
    using fetch_Thrown(1,2,3)[OF assms(1,2) blk, of stats s] Rejected by simp
next
  case (Resolved data)
  then obtain l where blk: "fetch_block cfg w = Normal l"
    and snt: "sent l = [IndexerNodes (listedName cfg) 100]"
    using assms(3) by (simp add: fetch_block_def l2_block_def Let_def)
  show ?thesis
    using fetch_Normal(3)[OF assms(1,2) blk, of stats s] snt Resolved by simp
qed

text \<open>The scenario of the specification: parent \<^verbatim>\<open>bob.eth\<close>, L2, indexer unreachable, ten
  subnames shown from the cache.\<close>

theorem l2_failure_keeps_snapshot_witness:
  "traffic (fetchMintStats bob ten_shown offline (showing ten_shown ten_cached)) =
     [IndexerNodes ''bob.eth'' 100]
   \<and> state (fetchMintStats bob ten_shown offline (showing ten_shown ten_cached)) =
       \<lparr>totalMinted = 10, recentMints = [''old.eth''], isLoading = False,
        error = Some ''Failed to fetch mint statistics''\<rparr>
   \<and> localStorage (fetchMintStats bob ten_shown offline (showing ten_shown ten_cached)) =
       ten_cached"
  using l2_failure_keeps_snapshot[where cfg = bob and w = offline and stats = ten_shown
      and s = "showing ten_shown ten_cached"]
  by (simp add: example_defs)

subsection \<open>When the cache is written\<close>

text \<open>
  Claim C5: for every refresh cycle, the cache entry for the parent-name key is created
  or overwritten exactly when the fetch succeeds with \<^verbatim>\<open>totalMinted > 0\<close>, storing
  \<^verbatim>\<open>{totalMinted, recentMints, timestamp: now}\<close>; a fetch that yields zero or fails leaves
  any previously cached non-zero entry unchanged.

  The guard of line 153 and the outer \<^verbatim>\<open>catch\<close>, which skips the write, are there for this,
  but a failed L1 fetch gets past both. Line 85 assigns the count before the corrective
  query is sent; when that query and then the fallback reject, the \<^verbatim>\<open>catch\<close> of lines
  131-133 only logs, and line 153 finds a positive count. A first response with count 5
  and no names, then two rejections: all three requests of the run are sent, none yields a
  name, and the cached entry of ten is overwritten by a count of 5 without names.
\<close>

theorem failed_fetch_overwrites_cache:
  "traffic (fetchMintStats alice ten_shown count_then_down (showing ten_shown ten_cached)) =
     [Subgraph (DomainsOfParent ''node:alice.eth'' 100 ''createdAt'' ''desc''),
      Subgraph (SubdomainsOfDomain ''node:alice.eth'' 100 ''createdAt'' ''desc''),
      GetSubnames \<lparr>sq_name = ''alice.eth'', searchString = [], sq_orderBy = ''createdAt'',
                   sq_orderDirection = ''desc'', pageSize = 100\<rparr>]
   \<and> localStorage (showing ten_shown ten_cached) ''mintStats-alice.eth'' =
       Some (Json \<lparr>totalMinted = 10, recentMints = [''old.eth''], timestamp = 0\<rparr>)
   \<and> localStorage (fetchMintStats alice ten_shown count_then_down
        (showing ten_shown ten_cached)) ''mintStats-alice.eth'' =
       Some (Json \<lparr>totalMinted = 5, recentMints = [], timestamp = 1000\<rparr>)"
  by (simp add: example_defs run_defs)

subsection \<open>The fallback after a failing subgraph query\<close>

text \<open>
  Claim C6: for classification L1, if GraphQuery fails, RegistryFallbackQuery is invoked
  exactly once and its result becomes the snapshot, with \<^verbatim>\<open>totalMinted\<close> derived as the
  size of the returned page (a lower-bound approximation, not a true total).

  The subgraph block also throws when its corrective query rejects, and by then line 85
  has assigned the count. Line 127 adopts the page only if it is not empty. A first
  response with count 5 and no names, a corrective query that times out and an empty page
  from the registry client: the fallback is sent once, and the snapshot keeps the count 5,
  which is not the size of the page.
\<close>

theorem fallback_after_graph_failure_counterexample:
  "traffic (fetchMintStats alice empty_stats nested_down (mount alice 0 Map.empty)) =
     [Subgraph (DomainsOfParent ''node:alice.eth'' 100 ''createdAt'' ''desc''),
      Subgraph (SubdomainsOfDomain ''node:alice.eth'' 100 ''createdAt'' ''desc''),
      GetSubnames \<lparr>sq_name = ''alice.eth'', searchString = [], sq_orderBy = ''createdAt'',
                   sq_orderDirection = ''desc'', pageSize = 100\<rparr>]
   \<and> getSubnames nested_down \<lparr>sq_name = ''alice.eth'', searchString = [],
        sq_orderBy = ''createdAt'', sq_orderDirection = ''desc'', pageSize = 100\<rparr> =
       Resolved (Some [])
   \<and> state (fetchMintStats alice empty_stats nested_down (mount alice 0 Map.empty)) =
       \<lparr>totalMinted = 5, recentMints = [], isLoading = False, error = None\<rparr>"
  by (simp add: example_defs count_only_def nested_down_def run_defs mount_def
        initialStats_def empty_stats_def)

text \<open>
  Claim C6, as the source has it: for classification L1, if the subgraph block throws,
  \<^verbatim>\<open>getSubnames\<close> is called exactly once in the run, with the parent name, the empty search
  string, \<^verbatim>\<open>createdAt\<close> descending and page size 100; and whenever it resolves to a page
  that is not empty, or the subgraph had failed on its first request, the snapshot is that
  result: \<^verbatim>\<open>totalMinted\<close> the size of the page, \<^verbatim>\<open>recentMints\<close> the names of its first 100
  entries, no flag, no error.
\<close>

theorem fallback_after_graph_failure:
  assumes "listingChainId cfg \<noteq> 0" and "listedName cfg \<noteq> []" and "listingType cfg = L1"
    and "subgraph_block w (listedName cfg) 100 declared = Thrown l"
  shows "fallback_queries (traffic (fetchMintStats cfg stats w s)) =
           fallback_queries (traffic s)
           @ [\<lparr>sq_name = listedName cfg, searchString = [], sq_orderBy = ''createdAt'',
               sq_orderDirection = ''desc'', pageSize = 100\<rparr>]
       \<and> (\<forall>page. getSubnames w \<lparr>sq_name = listedName cfg, searchString = [],
                     sq_orderBy = ''createdAt'', sq_orderDirection = ''desc'',
                     pageSize = 100\<rparr> = Resolved (Some page) \<longrightarrow>
                   (page \<noteq> [] \<or> first_request_fails w (listedName cfg)) \<longrightarrow>
                   state (fetchMintStats cfg stats w s) =
                     \<lparr>totalMinted = int (length page), recentMints = map name (take 100 page),
                      isLoading = False, error = None\<rparr>)"
proof -
  let ?q = "\<lparr>sq_name = listedName cfg, searchString = [], sq_orderBy = ''createdAt'',
             sq_orderDirection = ''desc'', pageSize = 100\<rparr>"
  obtain l' where l1: "l1_block w (listedName cfg) 100 declared = Normal l'"
    and snt: "sent l' = sent l @ [GetSubnames ?q]"
    using l1_after_throw[OF assms(4)] by blast
  have blk: "fetch_block cfg w = Normal l'"
    using assms(3) l1 by (simp add: fetch_block_def)
  have once: "fallback_queries (sent l') = [?q]"
    using snt subgraph_Thrown_facts(2)[OF assms(4)] by (simp add: fallback_queries_append)
  have res: "totalMinted l' = int (length page) \<and> recentMints l' = map name (take 100 page)"
    if "getSubnames w ?q = Resolved (Some page)"
      and "page \<noteq> [] \<or> first_request_fails w (listedName cfg)" for page
  proof (cases "page = []")
    case True
    then have "first_request_fails w (listedName cfg)" using that(2) by simp
    then have "totalMinted l = 0" using assms(4) first_request_fails_count by blast
    moreover have "recentMints l = []" using assms(4) by (rule subgraph_Thrown_facts(1))
    ultimately show ?thesis
      using l1 assms(4) that(1) True by (auto simp add: l1_block_cases)
  next
    case False
    then show ?thesis
      using l1 assms(4) that(1) by (auto simp add: l1_block_cases)
  qed
  show ?thesis
    using fetch_Normal(1,3)[OF assms(1,2) blk, of stats s] once res
    by (simp add: fallback_queries_append)
qed

theorem fallback_after_graph_failure_witness:
  "fallback_queries
     (traffic (fetchMintStats alice ten_shown page_of_two (showing ten_shown ten_cached))) =
     [\<lparr>sq_name = ''alice.eth'', searchString = [], sq_orderBy = ''createdAt'',
       sq_orderDirection = ''desc'', pageSize = 100\<rparr>]
   \<and> state (fetchMintStats alice ten_shown page_of_two (showing ten_shown ten_cached)) =
       \<lparr>totalMinted = 2, recentMints = [''p.alice.eth'', ''q.alice.eth''],
        isLoading = False, error = None\<rparr>"
proof -
  have thrown: "subgraph_block page_of_two (listedName alice) 100 declared =
      Thrown (send (Subgraph (DomainsOfParent ''node:alice.eth'' 100 ''createdAt'' ''desc''))
                declared)"
    by (simp add: example_defs page_of_two_def subgraph_block_def Let_def)
  have first: "first_request_fails page_of_two (listedName alice)"
    by (simp add: example_defs page_of_two_def first_request_fails_def)
  show ?thesis
    using fallback_after_graph_failure[OF _ _ _ thrown, of ten_shown "showing ten_shown ten_cached"] first
    by (simp add: example_defs page_of_two_def)
qed

subsection \<open>The corrective nested query\<close>

text \<open>
  Claim C7: for every parent name with classification L1, if the GraphQuery response has
  \<^verbatim>\<open>totalMinted = N > 0\<close> but an empty name list, exactly one corrective nested query (same
  parent, same ordering, same limit) is issued before \<^verbatim>\<open>recentMints\<close> is finalized, and
  its result is used if non-empty; if the count is zero or the first name list is
  non-empty, no corrective query is issued. The subgraph queries of the run are the first
  query followed by the nested one in the first case and the first query alone otherwise;
  a nested list that is not empty ends up in the snapshot, next to the count of the first
  response.
\<close>

theorem corrective_query_once:
  assumes "listingChainId cfg \<noteq> 0" and "listedName cfg \<noteq> []" and "listingType cfg = L1"
    and "namehash_normalize w (listedName cfg) = Some parentNode"
    and "axios_post w (DomainsOfParent parentNode 100 ''createdAt'' ''desc'') = Resolved data"
  shows "subgraph_queries (traffic (fetchMintStats cfg stats w s)) =
           subgraph_queries (traffic s)
           @ (if 0 < response_count data \<and> response_names data = []
              then [DomainsOfParent parentNode 100 ''createdAt'' ''desc'',
                    SubdomainsOfDomain parentNode 100 ''createdAt'' ''desc'']
              else [DomainsOfParent parentNode 100 ''createdAt'' ''desc''])
       \<and> (\<forall>nested dm ns.
             0 < response_count data \<longrightarrow> response_names data = [] \<longrightarrow>
             axios_post w (SubdomainsOfDomain parentNode 100 ''createdAt'' ''desc'') =
               Resolved (Some nested) \<longrightarrow>
             domain nested = Some dm \<longrightarrow> subdomains dm = Some ns \<longrightarrow> ns \<noteq> [] \<longrightarrow>
             state (fetchMintStats cfg stats w s) =
               \<lparr>totalMinted = response_count data, recentMints = map name ns,
                isLoading = False, error = None\<rparr>)"
proof -
  let ?q1 = "DomainsOfParent parentNode 100 ''createdAt'' ''desc''"
  let ?q2 = "SubdomainsOfDomain parentNode 100 ''createdAt'' ''desc''"
  let ?l2 = "read_domains data (read_count data (send (Subgraph ?q1) declared))"
  have cnt: "totalMinted ?l2 = response_count data"
    by (simp add: read_count_declared)
  have nms: "recentMints ?l2 = response_names data"
    by (simp add: read_domains_declared)
  have snt: "sent ?l2 = [Subgraph ?q1]"
    by simp
  show ?thesis
  proof (cases "0 < response_count data \<and> response_names data = []")
    case False
    then have "subgraph_block w (listedName cfg) 100 declared = Normal ?l2"
      using assms(4,5) cnt nms by (auto simp add: subgraph_block_def Let_def)
    then have blk: "fetch_block cfg w = Normal ?l2"
      using assms(3) by (simp add: fetch_block_def l1_block_def)
    show ?thesis
      using fetch_Normal(3)[OF assms(1,2) blk, of stats s] False snt
      by (auto simp add: subgraph_queries_append)
  next
    case True
    show ?thesis
    proof (cases "axios_post w ?q2")
      case Rejected
      then have thrown: "subgraph_block w (listedName cfg) 100 declared =
          Thrown (send (Subgraph ?q2) ?l2)"
        using assms(4,5) cnt nms True by (simp add: subgraph_block_def Let_def)
      obtain l' where l1: "l1_block w (listedName cfg) 100 declared = Normal l'"
        and snt': "sent l' = sent (send (Subgraph ?q2) ?l2)
                     @ [GetSubnames \<lparr>sq_name = listedName cfg, searchString = [],
                          sq_orderBy = ''createdAt'', sq_orderDirection = ''desc'',
                          pageSize = 100\<rparr>]"
        using l1_after_throw[OF thrown] by blast
      have blk: "fetch_block cfg w = Normal l'"
        using assms(3) l1 by (simp add: fetch_block_def)
      show ?thesis
        using fetch_Normal(3)[OF assms(1,2) blk, of stats s] True snt' Rejected
        by (simp add: subgraph_queries_append)
    next
      case (Resolved nested)
      then have "subgraph_block w (listedName cfg) 100 declared =
          Normal (read_nested nested (send (Subgraph ?q2) ?l2))"
        using assms(4,5) cnt nms True by (simp add: subgraph_block_def Let_def)
      then have blk: "fetch_block cfg w = Normal (read_nested nested (send (Subgraph ?q2) ?l2))"
        using assms(3) by (simp add: fetch_block_def l1_block_def)
      have used: "recentMints (read_nested nested (send (Subgraph ?q2) ?l2)) = map name ns"
        if "nested = Some nd" and "domain nd = Some dm" and "subdomains dm = Some ns"
        for nd dm ns
        using that by (simp add: read_nested_def)
      show ?thesis
        using fetch_Normal(1,3)[OF assms(1,2) blk, of stats s] True Resolved used cnt
        by (simp add: subgraph_queries_append)
    qed
  qed
qed

theorem corrective_query_once_witness:
  "subgraph_queries
     (traffic (fetchMintStats alice empty_stats list_missing (mount alice 0 Map.empty))) =
     [DomainsOfParent ''node:alice.eth'' 100 ''createdAt'' ''desc'',
      SubdomainsOfDomain ''node:alice.eth'' 100 ''createdAt'' ''desc'']
   \<and> state (fetchMintStats alice empty_stats list_missing (mount alice 0 Map.empty)) =
       \<lparr>totalMinted = 5, recentMints = [''x.alice.eth'', ''y.alice.eth''],
        isLoading = False, error = None\<rparr>
   \<and> subgraph_queries
       (traffic (fetchMintStats alice empty_stats subgraph_up (mount alice 0 Map.empty))) =
       [DomainsOfParent ''node:alice.eth'' 100 ''createdAt'' ''desc'']"
  using corrective_query_once[where cfg = alice and w = list_missing and parentNode = "''node:alice.eth''"
      and data = "Some count_only" and stats = empty_stats and s = "mount alice 0 Map.empty"]
    corrective_query_once[where cfg = alice and w = subgraph_up and parentNode = "''node:alice.eth''"
      and data = "Some three_of_alice" and stats = empty_stats and s = "mount alice 0 Map.empty"]
  by (simp add: example_defs list_missing_def count_only_def three_nested_def
        response_count_def response_names_def read_count_def read_domains_def declared_def
        mount_def)

subsection \<open>The cache round trip\<close>

text \<open>
  Claim C8: saving an entry \<^verbatim>\<open>{totalMinted, recentMints, timestamp: now}\<close> and loading it
  under the same parent-name key within 1 hour yields identical \<^verbatim>\<open>totalMinted\<close> and
  \<^verbatim>\<open>recentMints\<close> fields and seeds the snapshot with \<^verbatim>\<open>isLoading\<close> false; an entry whose age
  is 1 hour or more is not fresh (an entry is fresh when \<^verbatim>\<open>now - timestamp\<close> is below
  3600000 ms) and is ignored, so initialization falls back to the empty loading state.
  This holds of an entry stored with \<^verbatim>\<open>setItem\<close> under the key of the parent, and of the
  entry that a successful run with a positive count has stored.
\<close>

theorem cache_round_trip:
  assumes "listingChainId cfg \<noteq> 0" and "listedName cfg \<noteq> []"
  shows "initialStats cfg now
           (localStorage (setItem (cache_key (listedName cfg))
              \<lparr>totalMinted = n, recentMints = ms, timestamp = saved\<rparr> s)) =
         (if now - saved < 3600000
          then \<lparr>totalMinted = n, recentMints = ms, isLoading = False, error = None\<rparr>
          else \<lparr>totalMinted = 0, recentMints = [], isLoading = True, error = None\<rparr>)
       \<and> (\<forall>l. fetch_block cfg w = Normal l \<longrightarrow> 0 < totalMinted l \<longrightarrow>
            initialStats cfg now (localStorage (fetchMintStats cfg stats w s)) =
              (if now - date_now w < 3600000
               then \<lparr>totalMinted = totalMinted l, recentMints = recentMints l,
                     isLoading = False, error = None\<rparr>
               else \<lparr>totalMinted = 0, recentMints = [], isLoading = True, error = None\<rparr>))"
proof -
  have "initialStats cfg now (localStorage (fetchMintStats cfg stats w s)) =
          (if now - date_now w < 3600000
           then \<lparr>totalMinted = totalMinted l, recentMints = recentMints l,
                 isLoading = False, error = None\<rparr>
           else \<lparr>totalMinted = 0, recentMints = [], isLoading = True, error = None\<rparr>)"
    if "fetch_block cfg w = Normal l" and "0 < totalMinted l" for l
    using fetch_Normal(2)[OF assms that(1), of stats s] that(2) assms(2)
    by (simp add: initialStats_def empty_stats_def)
  then show ?thesis
    using assms(2) by (simp add: initialStats_def setItem_def empty_stats_def)
qed

theorem cache_round_trip_witness:
  "initialStats alice 4599999
     (localStorage (setItem (cache_key ''alice.eth'')
        \<lparr>totalMinted = 42, recentMints = [''a.eth''], timestamp = 1000000\<rparr>
        (showing ten_shown ten_cached))) =
     \<lparr>totalMinted = 42, recentMints = [''a.eth''], isLoading = False, error = None\<rparr>
   \<and> initialStats alice 4600000
     (localStorage (setItem (cache_key ''alice.eth'')
        \<lparr>totalMinted = 42, recentMints = [''a.eth''], timestamp = 1000000\<rparr>
        (showing ten_shown ten_cached))) =
     \<lparr>totalMinted = 0, recentMints = [], isLoading = True, error = None\<rparr>
   \<and> initialStats alice 3600999
        (localStorage (fetchMintStats alice empty_stats subgraph_up (mount alice 0 Map.empty))) =
     \<lparr>totalMinted = 3, recentMints = [''x.alice.eth'', ''y.alice.eth''],
      isLoading = False, error = None\<rparr>
   \<and> initialStats alice 3601000
        (localStorage (fetchMintStats alice empty_stats subgraph_up (mount alice 0 Map.empty))) =
     \<lparr>totalMinted = 0, recentMints = [], isLoading = True, error = None\<rparr>"
proof -
  have blk: "fetch_block alice subgraph_up =
      Normal \<lparr>totalMinted = 3, recentMints = [''x.alice.eth'', ''y.alice.eth''],
             sent = [Subgraph (DomainsOfParent ''node:alice.eth'' 100 ''createdAt'' ''desc'')]\<rparr>"
    by (simp add: example_defs run_defs)
  show ?thesis
    using cache_round_trip[where cfg = alice and now = 4599999 and n = 42 and ms = "[''a.eth'']"
        and saved = 1000000 and s = "showing ten_shown ten_cached"]
      cache_round_trip[where cfg = alice and now = 4600000 and n = 42 and ms = "[''a.eth'']"
        and saved = 1000000 and s = "showing ten_shown ten_cached"]
      cache_round_trip[where cfg = alice and now = 3600999 and w = subgraph_up and stats = empty_stats
        and s = "mount alice 0 Map.empty"]
      cache_round_trip[where cfg = alice and now = 3601000 and w = subgraph_up and stats = empty_stats
        and s = "mount alice 0 Map.empty"]
    unfolding blk
    by (simp add: example_defs)
qed

subsection \<open>The length of the name list\<close>

text \<open>
  Claim C9: in every snapshot produced by any refresh path (GraphQuery, its corrective
  nested query, RegistryFallbackQuery, or IndexerQuery), \<^verbatim>\<open>recentMints.length\<close> never
  exceeds the configured limit of 100.

  Lines 128 and 149 cut the lists of the registry client and of the indexer with
  \<^verbatim>\<open>slice(0, limit)\<close>. Lines 90-92 and 110 take the lists of the subgraph as they come:
  the limit is only asked for, as \<^verbatim>\<open>first: 100\<close> in the query. A subgraph that answers
  with 101 entries gives a snapshot of 101 names.
\<close>

theorem recentMints_limit_counterexample:
  "length (recentMints (state
     (fetchMintStats alice empty_stats overfull (mount alice 0 Map.empty)))) = 101"
  by (simp add: example_defs overfull_def run_defs mount_def initialStats_def empty_stats_def)

text \<open>The bound, through the reading steps, the blocks, one run and a sequence of runs.\<close>

lemma filter_within:
  "length ds \<le> limit \<Longrightarrow> length (filter P ds) \<le> limit"
  using length_filter_le[of P ds] by (rule order_trans)

lemma read_domains_bounded:
  assumes "length (recentMints l) \<le> limit"
    and "case data of None \<Rightarrow> True
         | Some d \<Rightarrow> (case domains d of None \<Rightarrow> True | Some ds \<Rightarrow> length ds \<le> limit)"
  shows "length (recentMints (read_domains data l)) \<le> limit"
  using assms by (auto simp add: read_domains_def filter_within split: option.splits)

lemma read_nested_bounded:
  assumes "length (recentMints l) \<le> limit"
    and "case data of None \<Rightarrow> True
         | Some d \<Rightarrow> (case domain d of None \<Rightarrow> True
             | Some dm \<Rightarrow> (case subdomains dm of None \<Rightarrow> True | Some ns \<Rightarrow> length ns \<le> limit))"
  shows "length (recentMints (read_nested data l)) \<le> limit"
  using assms by (auto simp add: read_nested_def split: option.splits)

lemma subgraph_block_bounded:
  assumes "subgraph_within_limit w nm limit"
    and "subgraph_block w nm limit declared = Normal l"
  shows "length (recentMints l) \<le> limit"
proof (cases "namehash_normalize w nm")
  case None
  then show ?thesis using assms(2) by (simp add: subgraph_block_def)
next
  case (Some parentNode)
  let ?q1 = "DomainsOfParent parentNode limit ''createdAt'' ''desc''"
  let ?q2 = "SubdomainsOfDomain parentNode limit ''createdAt'' ''desc''"
  show ?thesis
  proof (cases "axios_post w ?q1")
    case Rejected
    then show ?thesis using assms(2) Some by (simp add: subgraph_block_def Let_def)
  next
    case (Resolved data)
    let ?l2 = "read_domains data (read_count data (send (Subgraph ?q1) declared))"
    have d1: "case data of None \<Rightarrow> True
         | Some d \<Rightarrow> (case domains d of None \<Rightarrow> True | Some ds \<Rightarrow> length ds \<le> limit)"
      using assms(1) Some Resolved
      by (simp add: subgraph_within_limit_def split: option.splits)
    have b2: "length (recentMints ?l2) \<le> limit"
      by (rule read_domains_bounded) (simp_all add: d1)
    show ?thesis
    proof (cases "0 < totalMinted ?l2 \<and> length (recentMints ?l2) = 0")
      case False
      then have "l = ?l2"
        using assms(2) Some Resolved by (auto simp add: subgraph_block_def Let_def)
      then show ?thesis using b2 by simp
    next
      case True
      show ?thesis
      proof (cases "axios_post w ?q2")
        case Rejected
        then show ?thesis
          using assms(2) Some \<open>axios_post w ?q1 = Resolved data\<close> True
          by (simp add: subgraph_block_def Let_def)
      next
        case (Resolved nested)
        have d2: "case nested of None \<Rightarrow> True
           | Some d \<Rightarrow> (case domain d of None \<Rightarrow> True
             | Some dm \<Rightarrow> (case subdomains dm of None \<Rightarrow> True | Some ns \<Rightarrow> length ns \<le> limit))"
          using assms(1) Some Resolved
          by (simp add: subgraph_within_limit_def split: option.splits)
        have "l = read_nested nested (send (Subgraph ?q2) ?l2)"
          using assms(2) Some \<open>axios_post w ?q1 = Resolved data\<close> True Resolved
          by (simp add: subgraph_block_def Let_def)
        moreover have "length (recentMints (read_nested nested (send (Subgraph ?q2) ?l2))) \<le> limit"
          by (rule read_nested_bounded) (simp_all add: d2 b2)
        ultimately show ?thesis by simp
      qed
    qed
  qed
qed

lemma l1_block_bounded:
  assumes "subgraph_throws w nm limit \<or> subgraph_within_limit w nm limit"
    and "l1_block w nm limit declared = Normal l"
  shows "length (recentMints l) \<le> limit"
proof (cases "subgraph_block w nm limit declared")
  case (Normal l')
  then have "l = l'" using assms(2) by (simp add: l1_block_def)
  moreover have "subgraph_within_limit w nm limit"
    using assms(1) Normal by (simp add: subgraph_throws_def)
  ultimately show ?thesis using subgraph_block_bounded[OF _ Normal] by simp
next
  case (Thrown l')
  have "recentMints l' = []" using Thrown by (rule subgraph_Thrown_facts(1))
  then show ?thesis
    using assms(2) Thrown
    by (auto simp add: l1_block_cases split: reply.splits option.splits if_splits)
qed

lemma l2_block_bounded:
  assumes "l2_block w nm limit l0 = Normal l"
  shows "length (recentMints l) \<le> limit"
  using assms by (auto simp add: l2_block_def Let_def split: reply.splits option.splits)

lemma fetch_block_bounded:
  assumes "listingType cfg = L2 \<or> subgraph_throws w (listedName cfg) 100
             \<or> subgraph_within_limit w (listedName cfg) 100"
    and "fetch_block cfg w = Normal l"
  shows "length (recentMints l) \<le> 100"
proof (cases "listingType cfg")
  case L1
  then show ?thesis
    using assms l1_block_bounded[of w "listedName cfg" 100 l]
    by (simp add: fetch_block_def)
next
  case L2
  then show ?thesis
    using assms(2) l2_block_bounded[of w "listedName cfg" 100 declared l]
    by (simp add: fetch_block_def)
qed

lemma l1_fetch_block_Normal:
  assumes "listingType cfg = L1"
  shows "\<exists>l. fetch_block cfg w = Normal l"
  using assms by (simp add: fetch_block_def l1_block_def split: completion.splits)

lemma fetch_keeps_within:
  assumes "listingType cfg = L2 \<or> subgraph_throws w (listedName cfg) 100
             \<or> subgraph_within_limit w (listedName cfg) 100"
    and "within_limit s"
  shows "within_limit (fetchMintStats cfg stats w s)"
proof (cases "listingChainId cfg = 0 \<or> listedName cfg = []")
  case True
  then show ?thesis using assms(2) by (simp add: fetchMintStats_def)
next
  case False
  then have cfg: "listingChainId cfg \<noteq> 0" "listedName cfg \<noteq> []" by simp_all
  show ?thesis
  proof (cases "fetch_block cfg w")
    case (Thrown l)
    show ?thesis
      using fetch_Thrown(1,4)[OF cfg Thrown, of stats s] assms(2)
      by (simp add: within_limit_def)
  next
    case (Normal l)
    have "length (recentMints l) \<le> 100"
      using assms(1) Normal by (rule fetch_block_bounded)
    then show ?thesis
      using fetch_Normal(1,4)[OF cfg Normal, of stats s] assms(2)
      by (simp add: within_limit_def)
  qed
qed

lemma refreshes_keep_within:
  assumes "\<forall>w \<in> set ws. listingType cfg = L2 \<or> subgraph_throws w (listedName cfg) 100
             \<or> subgraph_within_limit w (listedName cfg) 100"
    and "within_limit s"
  shows "within_limit (refreshes cfg stats ws s)"
  using assms
proof (induction ws arbitrary: s)
  case Nil
  then show ?case by simp
next
  case (Cons w ws)
  have "within_limit (fetchMintStats cfg stats w s)"
    using Cons.prems by (intro fetch_keeps_within) auto
  then show ?case
    using Cons.IH[of "fetchMintStats cfg stats w s"] Cons.prems(1) by simp
qed

text \<open>
  Claim C9, as the source has it, in three parts. First: the snapshot of a run that
  completes on the IndexerQuery path (classification L2) or on the RegistryFallbackQuery
  path (classification L1, the subgraph block having thrown) lists at most 100 names,
  whatever the services return and whatever was shown before. Second: the snapshot of a
  run of classification L1 lists at most 100 names provided the subgraph answers the run's
  queries with no more than the 100 entries asked for. Third: no snapshot of a session
  lists more than 100 names, provided that a cache entry used as seed lists no more than
  100 and that each run is of one of these kinds.
\<close>

theorem recentMints_within_limit:
  "(listingChainId cfg \<noteq> 0 \<and> listedName cfg \<noteq> [] \<and> fetch_block cfg w = Normal l
      \<and> (listingType cfg = L2 \<or> subgraph_throws w (listedName cfg) 100)
     \<longrightarrow> length (recentMints (state (fetchMintStats cfg stats w s))) \<le> 100)
   \<and> (listingChainId cfg \<noteq> 0 \<and> listedName cfg \<noteq> [] \<and> listingType cfg = L1
        \<and> subgraph_within_limit w (listedName cfg) 100
       \<longrightarrow> length (recentMints (state (fetchMintStats cfg stats w s))) \<le> 100)
   \<and> ((\<forall>w \<in> set ws. listingType cfg = L2 \<or> subgraph_throws w (listedName cfg) 100
                        \<or> subgraph_within_limit w (listedName cfg) 100)
        \<and> (\<forall>e. ls (cache_key (listedName cfg)) = Some (Json e)
                 \<longrightarrow> length (recentMints e) \<le> 100)
       \<longrightarrow> (\<forall>m \<in> set (rendered (useMintStats cfg now ls ws)).
              length (recentMints m) \<le> 100))"
proof (intro conjI impI)
  assume h: "listingChainId cfg \<noteq> 0 \<and> listedName cfg \<noteq> [] \<and> fetch_block cfg w = Normal l
      \<and> (listingType cfg = L2 \<or> subgraph_throws w (listedName cfg) 100)"
  then have "length (recentMints l) \<le> 100"
    by (intro fetch_block_bounded[of cfg w l]) auto
  then show "length (recentMints (state (fetchMintStats cfg stats w s))) \<le> 100"
    using h fetch_Normal(1)[of cfg w l stats s] by simp
next
  assume h: "listingChainId cfg \<noteq> 0 \<and> listedName cfg \<noteq> [] \<and> listingType cfg = L1
      \<and> subgraph_within_limit w (listedName cfg) 100"
  then obtain l' where blk: "fetch_block cfg w = Normal l'"
    using l1_fetch_block_Normal[of cfg w] by blast
  have "length (recentMints l') \<le> 100"
    using h blk by (intro fetch_block_bounded[of cfg w l']) auto
  then show "length (recentMints (state (fetchMintStats cfg stats w s))) \<le> 100"
    using h fetch_Normal(1)[of cfg w l' stats s] blk by simp
next
  assume h: "(\<forall>w \<in> set ws. listingType cfg = L2 \<or> subgraph_throws w (listedName cfg) 100
                        \<or> subgraph_within_limit w (listedName cfg) 100)
        \<and> (\<forall>e. ls (cache_key (listedName cfg)) = Some (Json e)
                 \<longrightarrow> length (recentMints e) \<le> 100)"
  have "length (recentMints (initialStats cfg now ls)) \<le> 100"
    using h by (simp add: initialStats_def empty_stats_def split: option.splits stored.splits)
  then have "within_limit (mount cfg now ls)"
    by (simp add: within_limit_def mount_def)
  then have "within_limit (useMintStats cfg now ls ws)"
    unfolding useMintStats_def using h by (intro refreshes_keep_within) simp_all
  then show "\<forall>m \<in> set (rendered (useMintStats cfg now ls ws)). length (recentMints m) \<le> 100"
    by (simp add: within_limit_def list_all_iff)
qed

text \<open>An indexer and a registry client that return 150 entries, the latter after a
  subgraph that had returned 101 entries without a name; a subgraph that keeps to the
  limit; and two sessions.\<close>

theorem recentMints_within_limit_witness:
  "length (recentMints (state
     (fetchMintStats bob ten_shown crowded_indexer (showing ten_shown ten_cached)))) \<le> 100
   \<and> length (recentMints (state
       (fetchMintStats alice ten_shown unnamed_overfull (showing ten_shown ten_cached)))) \<le> 100
   \<and> length (recentMints (state
       (fetchMintStats alice ten_shown subgraph_up (showing ten_shown ten_cached)))) \<le> 100
   \<and> list_all (\<lambda>m. length (recentMints m) \<le> 100)
       (rendered (useMintStats alice 0 ten_cached
          [subgraph_up, offline, unnamed_overfull, page_of_two]))
   \<and> list_all (\<lambda>m. length (recentMints m) \<le> 100)
       (rendered (useMintStats bob 0 ten_cached [offline, crowded_indexer]))"
proof -
  have i1: "fetch_block bob crowded_indexer =
      Normal \<lparr>totalMinted = 150, recentMints = replicate 100 ''n.bob.eth'',
             sent = [IndexerNodes ''bob.eth'' 100]\<rparr>"
    by (simp add: example_defs run_defs)
  have r0: "subgraph_block unnamed_overfull ''alice.eth'' 100 declared =
      Thrown \<lparr>totalMinted = 101, recentMints = [],
             sent = [Subgraph (DomainsOfParent ''node:alice.eth'' 100 ''createdAt'' ''desc''),
                     Subgraph (SubdomainsOfDomain ''node:alice.eth'' 100 ''createdAt''
                       ''desc'')]\<rparr>"
    by (simp add: example_defs run_defs)
  have r1: "subgraph_throws unnamed_overfull (listedName alice) 100"
    using r0 by (simp add: subgraph_throws_def alice_def)
  have r2: "fetch_block alice unnamed_overfull =
      Normal \<lparr>totalMinted = 150, recentMints = replicate 100 ''r.alice.eth'',
             sent = [Subgraph (DomainsOfParent ''node:alice.eth'' 100 ''createdAt'' ''desc''),
                     Subgraph (SubdomainsOfDomain ''node:alice.eth'' 100 ''createdAt''
                       ''desc''),
                     GetSubnames \<lparr>sq_name = ''alice.eth'', searchString = [],
                       sq_orderBy = ''createdAt'', sq_orderDirection = ''desc'',
                       pageSize = 100\<rparr>]\<rparr>"
    using r0 by (simp add: fetch_block_def l1_block_cases alice_def unnamed_overfull_def
                   offline_def send_def)
  have g1: "subgraph_within_limit subgraph_up (listedName alice) 100"
    by (simp add: example_defs subgraph_within_limit_def)
  have t1: "subgraph_throws offline (listedName alice) 100"
    by (simp add: example_defs subgraph_throws_def subgraph_block_def Let_def)
  have t2: "subgraph_throws page_of_two (listedName alice) 100"
    by (simp add: example_defs subgraph_throws_def subgraph_block_def Let_def)
  have a1: "\<forall>w \<in> set [subgraph_up, offline, unnamed_overfull, page_of_two].
      listingType alice = L2 \<or> subgraph_throws w (listedName alice) 100
        \<or> subgraph_within_limit w (listedName alice) 100"
    using g1 t1 r1 t2 by simp
  have a2: "\<forall>e. ten_cached (cache_key (listedName alice)) = Some (Json e) \<longrightarrow>
      length (recentMints e) \<le> 100"
    by (simp add: example_defs cache_key_def)
  have b1: "\<forall>w \<in> set [offline, crowded_indexer].
      listingType bob = L2 \<or> subgraph_throws w (listedName bob) 100
        \<or> subgraph_within_limit w (listedName bob) 100"
    by (simp add: bob_def)
  have b2: "\<forall>e. ten_cached (cache_key (listedName bob)) = Some (Json e) \<longrightarrow>
      length (recentMints e) \<le> 100"
    by (simp add: example_defs cache_key_def)
  show ?thesis
    using recentMints_within_limit[where cfg = bob and w = crowded_indexer
        and l = "\<lparr>totalMinted = 150, recentMints = replicate 100 ''n.bob.eth'',
                  sent = [IndexerNodes ''bob.eth'' 100]\<rparr>"
        and stats = ten_shown and s = "showing ten_shown ten_cached"
        and ws = "[offline, crowded_indexer]" and ls = ten_cached and now = 0]
      recentMints_within_limit[where cfg = alice and w = unnamed_overfull
        and l = "\<lparr>totalMinted = 150, recentMints = replicate 100 ''r.alice.eth'',
             sent = [Subgraph (DomainsOfParent ''node:alice.eth'' 100 ''createdAt'' ''desc''),
                     Subgraph (SubdomainsOfDomain ''node:alice.eth'' 100 ''createdAt''
                       ''desc''),
                     GetSubnames \<lparr>sq_name = ''alice.eth'', searchString = [],
                       sq_orderBy = ''createdAt'', sq_orderDirection = ''desc'',
                       pageSize = 100\<rparr>]\<rparr>"
        and stats = ten_shown and s = "showing ten_shown ten_cached"
        and ws = "[subgraph_up, offline, unnamed_overfull, page_of_two]"
        and ls = ten_cached and now = 0]
      recentMints_within_limit[where cfg = alice and w = subgraph_up
        and stats = ten_shown and s = "showing ten_shown ten_cached"
        and ws = "[]" and ls = ten_cached and now = 0]
      i1 r1 r2 g1 a1 a2 b1 b2
    by (simp add: list_all_iff alice_def bob_def)
qed

subsection \<open>A run that ends with a zero count\<close>

text \<open>
  Claim C10: a refresh that completes without throwing but yields \<^verbatim>\<open>totalMinted = 0\<close> (for
  example an L2 indexer response with \<^verbatim>\<open>totalItems = 0\<close>, or an L1 cycle where both
  adapters were exhausted silently) replaces the entire live snapshot with
  \<^verbatim>\<open>{totalMinted: 0, recentMints: [], isLoading: false, error: null}\<close>, discarding any
  previously displayed non-zero values; only the persisted cache entry retains the earlier
  non-zero data.

  The name list of the new snapshot is the one fetched, which a zero count does not
  empty: line 149 reads \<^verbatim>\<open>items\<close> whatever \<^verbatim>\<open>totalItems\<close> is. An indexer response with
  \<^verbatim>\<open>totalItems: 0\<close> and one item gives a snapshot with count 0 and one name.
\<close>

theorem zero_result_counterexample:
  "state (fetchMintStats bob ten_shown inconsistent_indexer (showing ten_shown ten_cached)) =
     \<lparr>totalMinted = 0, recentMints = [''a.bob.eth''], isLoading = False, error = None\<rparr>"
  by (simp add: example_defs inconsistent_indexer_def run_defs)

text \<open>
  Claim C10, as the source has it: a run that completes without throwing and ends with
  \<^verbatim>\<open>totalMinted = 0\<close> replaces the live snapshot with count 0, the names fetched in that
  run, \<^verbatim>\<open>isLoading\<close> false and no error, whatever was displayed before, and does not write
  the cache. In both examples of the claim no name is fetched, and the new snapshot is
  \<^verbatim>\<open>{totalMinted: 0, recentMints: [], isLoading: false, error: null}\<close>.
\<close>

theorem zero_result_replaces_snapshot:
  assumes "listingChainId cfg \<noteq> 0" and "listedName cfg \<noteq> []"
    and "fetch_block cfg w = Normal l" and "totalMinted l = 0"
  shows "state (fetchMintStats cfg stats w s) =
           \<lparr>totalMinted = 0, recentMints = recentMints l, isLoading = False, error = None\<rparr>
       \<and> localStorage (fetchMintStats cfg stats w s) = localStorage s"
  using fetch_Normal(1,2)[OF assms(1,2,3), of stats s] assms(4) by simp

theorem zero_result_replaces_snapshot_witness:
  "state (fetchMintStats bob ten_shown idle_indexer (showing ten_shown ten_cached)) =
     \<lparr>totalMinted = 0, recentMints = [], isLoading = False, error = None\<rparr>
   \<and> localStorage (fetchMintStats bob ten_shown idle_indexer (showing ten_shown ten_cached)) =
       ten_cached
   \<and> state (fetchMintStats alice ten_shown offline (showing ten_shown ten_cached)) =
     \<lparr>totalMinted = 0, recentMints = [], isLoading = False, error = None\<rparr>
   \<and> localStorage (fetchMintStats alice ten_shown offline (showing ten_shown ten_cached)) =
       ten_cached"
proof -
  have b: "fetch_block bob idle_indexer =
      Normal \<lparr>totalMinted = 0, recentMints = [], sent = [IndexerNodes ''bob.eth'' 100]\<rparr>"
    by (simp add: example_defs idle_indexer_def run_defs)
  have a: "fetch_block alice offline =
      Normal \<lparr>totalMinted = 0, recentMints = [],
             sent = [Subgraph (DomainsOfParent ''node:alice.eth'' 100 ''createdAt'' ''desc''),
                     GetSubnames \<lparr>sq_name = ''alice.eth'', searchString = [],
                       sq_orderBy = ''createdAt'', sq_orderDirection = ''desc'',
                       pageSize = 100\<rparr>]\<rparr>"
    by (simp add: example_defs run_defs)
  show ?thesis
    using zero_result_replaces_snapshot[OF _ _ b, of ten_shown "showing ten_shown ten_cached"]
      zero_result_replaces_snapshot[OF _ _ a, of ten_shown "showing ten_shown ten_cached"]
    by (simp add: example_defs)
qed

end
